theory Spec2Isabelle
  imports Complex_Main
begin

section \<open>JavaScript values that cross the fetch boundary\<close>

text \<open>
  The scalar fields of the two JSON bodies (\<open>temperature\<close>, \<open>time\<close>, \<open>trend\<close>,
  \<open>count\<close>, the elements of \<open>lastTimestamps\<close>) and the \<open>error\<close> state hold
  JavaScript values. A field missing from the body reads as \<open>Undefined\<close>. \<open>Num\<close>
  holds the value of a finite number; these fields are only tested and handed on, never
  computed with. The temperatures of the history, which are added, divided, compared
  and formatted, have the type \<open>number\<close> below.
\<close>

datatype jsval = Null | Undefined | Bool bool | Num rat | Str string

text \<open>\<open>ToBoolean\<close>, as used by \<open>!timeString\<close>, \<open>if (error)\<close> and \<open>result.count || 0\<close>.\<close>

fun truthy :: "jsval \<Rightarrow> bool" where
  "truthy Null = False"
| "truthy Undefined = False"
| "truthy (Bool b) = b"
| "truthy (Num n) = (n \<noteq> 0)"
| "truthy (Str s) = (s \<noteq> [])"

text \<open>\<open>a || b\<close>\<close>

definition js_or :: "jsval \<Rightarrow> jsval \<Rightarrow> jsval" where
  "js_or a b = (if truthy a then a else b)"

subsection \<open>Decimal text\<close>

definition digit :: "nat \<Rightarrow> char" where
  "digit d = ''0123456789'' ! d"

fun show_nat :: "nat \<Rightarrow> string" where
  "show_nat n = (if n < 10 then [digit n] else show_nat (n div 10) @ [digit (n mod 10)])"

declare show_nat.simps [simp del]

subsection \<open>Numbers\<close>

text \<open>
  A JavaScript number is a binary64 value: a finite one, given here by the rational it
  stands for, an infinity or NaN. The two zeros are not told apart; no operation used
  by the components distinguishes them in what is rendered.
\<close>

datatype number = Fin rat | PosInf | NegInf | NaN

function decimal :: "int \<Rightarrow> string" where
  "decimal n = (if n < 10 then [digit (nat n)] else decimal (n div 10) @ [digit (nat (n mod 10))])"
  by pat_completeness auto
termination
  by (relation "measure nat") auto

declare decimal.simps [simp del]

function log2_floor :: "int \<Rightarrow> int" where
  "log2_floor n = (if n < 2 then 0 else 1 + log2_floor (n div 2))"
  by pat_completeness auto
termination
  by (relation "measure nat") auto

declare log2_floor.simps [simp del]

text \<open>The \<open>e\<close> with \<open>2^e \<le> a < 2^(e+1)\<close>, for a positive \<open>a\<close>.\<close>

definition exponent :: "rat \<Rightarrow> int" where
  "exponent a =
     (if 1 \<le> a then log2_floor \<lfloor>a\<rfloor>
      else - (1 + log2_floor (\<lceil>1 / a\<rceil> - 1)))"

definition pow2 :: "int \<Rightarrow> rat" where
  "pow2 k = (if 0 \<le> k then 2 ^ nat k else 1 / 2 ^ nat (- k))"

text \<open>The nearest integer, the even one of two that are equally near.\<close>

definition round_even :: "rat \<Rightarrow> int" where
  "round_even m =
     (let f = \<lfloor>m\<rfloor>; d = m - of_int f
      in if d < 1 / 2 then f else if 1 / 2 < d then f + 1 else if even f then f else f + 1)"

text \<open>
  Rounding a real result to binary64, to nearest with ties to even: 53 significant
  bits, the spacing of the subnormal numbers below \<open>2^-1022\<close>, and an infinity once
  the rounded magnitude reaches \<open>2^1024\<close>, that is, once its exponent reaches 1024.
\<close>

definition binary64 :: "rat \<Rightarrow> rat" where
  "binary64 x =
     (if x = 0 then 0
      else let q = pow2 (max (exponent \<bar>x\<bar>) (- 1022) - 52)
           in sgn x * of_int (round_even (\<bar>x\<bar> / q)) * q)"

definition overflows :: "rat \<Rightarrow> bool" where
  "overflows r = (r \<noteq> 0 \<and> 1024 \<le> exponent \<bar>r\<bar>)"

definition round64 :: "rat \<Rightarrow> number" where
  "round64 x =
     (let r = binary64 x
      in if overflows r then (if 0 < r then PosInf else NegInf) else Fin r)"


text \<open>\<open>x + y\<close> and \<open>x - y\<close> on numbers, and \<open>x / n\<close> for an array length \<open>n\<close>.\<close>

fun js_add :: "number \<Rightarrow> number \<Rightarrow> number" where
  "js_add (Fin a) (Fin b) = round64 (a + b)"
| "js_add NaN y = NaN"
| "js_add x NaN = NaN"
| "js_add PosInf NegInf = NaN"
| "js_add NegInf PosInf = NaN"
| "js_add PosInf y = PosInf"
| "js_add NegInf y = NegInf"
| "js_add (Fin a) y = y"

fun js_neg :: "number \<Rightarrow> number" where
  "js_neg (Fin a) = Fin (- a)"
| "js_neg PosInf = NegInf"
| "js_neg NegInf = PosInf"
| "js_neg NaN = NaN"

definition js_sub :: "number \<Rightarrow> number \<Rightarrow> number" where
  "js_sub x y = js_add x (js_neg y)"

fun js_div :: "number \<Rightarrow> nat \<Rightarrow> number" where
  "js_div (Fin a) n =
     (if n = 0 then (if a = 0 then NaN else if 0 < a then PosInf else NegInf)
      else round64 (a / of_nat n))"
| "js_div PosInf n = PosInf"
| "js_div NegInf n = NegInf"
| "js_div NaN n = NaN"

text \<open>\<open>x < y\<close> on numbers; false whenever one of them is NaN.\<close>

fun number_less :: "number \<Rightarrow> number \<Rightarrow> bool" where
  "number_less (Fin a) (Fin b) = (a < b)"
| "number_less NegInf (Fin b) = True"
| "number_less NegInf PosInf = True"
| "number_less (Fin a) PosInf = True"
| "number_less x y = False"

text \<open>
  \<open>Number::toString\<close> for a finite number of magnitude \<open>10^21\<close> or more, which is
  always in exponent form: the shortest digits \<open>s\<close> (\<open>k\<close> of them) and the \<open>n\<close> for
  which \<open>s * 10^(n-k)\<close> rounds to the number, the nearest such \<open>s\<close> if there are
  several.
\<close>

definition represents :: "rat \<Rightarrow> nat \<Rightarrow> nat \<Rightarrow> int \<Rightarrow> bool" where
  "represents a k n s =
     (10 ^ (k - 1) \<le> s \<and> s < 10 ^ k \<and> binary64 (of_int s * 10 ^ (n - k)) = a)"

definition candidates :: "rat \<Rightarrow> nat \<Rightarrow> (nat \<times> int) list" where
  "candidates a k =
     (let d = length (decimal \<lfloor>a\<rfloor>)
      in [(n, s). n \<leftarrow> [d, Suc d],
                  s \<leftarrow> [\<lfloor>a / 10 ^ (n - k)\<rfloor>, \<lfloor>a / 10 ^ (n - k)\<rfloor> + 1],
                  represents a k n s])"

definition nearer :: "rat \<Rightarrow> nat \<Rightarrow> nat \<times> int \<Rightarrow> nat \<times> int \<Rightarrow> nat \<times> int" where
  "nearer a k c c' =
     (let dist = (\<lambda>(n, s). \<bar>of_int s * 10 ^ (n - k) - a\<bar>)
      in if dist c' < dist c \<or> (dist c' = dist c \<and> even (snd c')) then c' else c)"

definition exponent_text :: "rat \<Rightarrow> string" where
  "exponent_text a =
     (case List.find (\<lambda>k. candidates a k \<noteq> []) [1..<18] of
        None \<Rightarrow> decimal \<lfloor>a\<rfloor>
      | Some k \<Rightarrow>
          (case candidates a k of
             c # cs \<Rightarrow>
               (let (n, s) = foldl (nearer a k) c cs; ds = decimal s
                in (if k = 1 then ds else hd ds # ''.'' @ tl ds) @ ''e+'' @ show_nat (n - 1))
           | [] \<Rightarrow> []))"

text \<open>
  \<open>Number.prototype.toFixed(1)\<close>. A number that is not finite gives its name. For a
  finite one the sign is split off; from \<open>10^21\<close> on the magnitude is given in
  exponent form; below, \<open>n\<close> is the integer with \<open>n / 10\<close> closest to the magnitude (the
  larger one on a tie), and the last digit of \<open>n\<close> goes behind the point.
\<close>

fun toFixed1 :: "number \<Rightarrow> string" where
  "toFixed1 NaN = ''NaN''"
| "toFixed1 PosInf = ''Infinity''"
| "toFixed1 NegInf = ''-Infinity''"
| "toFixed1 (Fin x) =
     (let s = (if x < 0 then ''-'' else ''''); a = \<bar>x\<bar>
      in if 10 ^ 21 \<le> a then s @ exponent_text a
         else let n = \<lfloor>a * 10 + 1 / 2\<rfloor>
              in s @ decimal (n div 10) @ ''.'' @ [digit (nat (n mod 10))])"

text \<open>
  \<open>ToNumber\<close> on an element of \<open>lastTemperatures\<close>, which is a number or \<open>null\<close>
  (here \<open>None\<close>): \<open>null\<close> becomes \<open>0\<close>.
\<close>

definition ToNumber :: "number option \<Rightarrow> number" where
  "ToNumber v = (case v of None \<Rightarrow> Fin 0 | Some r \<Rightarrow> r)"

subsection \<open>Dates\<close>

text \<open>
  \<open>new Date(v)\<close> either holds a time value or is an Invalid Date; it does not throw on
  a string, a number, a boolean, \<open>null\<close> or \<open>undefined\<close>. What \<open>v\<close> parses to, and the
  hour and minute of that instant in the viewer's time zone, belong to the host: the
  components take them as the parameter \<open>host\<close>.
\<close>

datatype date = Invalid_Date | Local_Time nat nat

type_synonym host = "jsval \<Rightarrow> date"

definition two_digit :: "nat \<Rightarrow> string" where
  "two_digit n = (if n < 10 then ''0'' @ show_nat n else show_nat n)"

text \<open>
  \<open>date.toLocaleTimeString('en-US', {hour12: false, hour: '2-digit', minute: '2-digit'})\<close>:
  an Invalid Date gives the text \<open>Invalid Date\<close>, and nothing is thrown.
\<close>

definition toLocaleTimeString :: "date \<Rightarrow> string" where
  "toLocaleTimeString d =
     (case d of
        Invalid_Date \<Rightarrow> ''Invalid Date''
      | Local_Time h m \<Rightarrow> two_digit h @ '':'' @ two_digit m)"

text \<open>
  The host of the worked examples, given on the values they use: one ISO timestamp that
  reads 13:05 in the viewer's zone, and text that is no date.
\<close>

definition example_host :: host where
  "example_host v =
     (if v = Str ''2024-05-01T13:05:00'' then Local_Time 13 5 else Invalid_Date)"

section \<open>The fetch boundary\<close>

text \<open>
  What one \<open>await fetch(url)\<close> followed by \<open>await response.json()\<close> can come to:
  \<open>fetch\<close> rejects with an error carrying a message, or it resolves to a response with
  a status whose body either fails to parse (or is \<open>null\<close>, so that reading a field
  throws) with a message, or parses to an object \<open>'b\<close>.
\<close>

datatype 'b fetched = Rejected string | Response nat "string + 'b"

definition ok :: "nat \<Rightarrow> bool" where
  "ok status = (200 \<le> status \<and> status \<le> 299)"

text \<open>
  The \<open>try\<close> block up to the point where the parsed result is in hand: \<open>Inl\<close> is the
  message of the error thrown, \<open>Inr\<close> the result.
\<close>

definition awaited :: "'b fetched \<Rightarrow> string + 'b" where
  "awaited out =
     (case out of
        Rejected msg \<Rightarrow> Inl msg
      | Response status body \<Rightarrow>
          if \<not> ok status then Inl (''HTTP error! status: '' @ show_nat status)
          else body)"

definition failed :: "'b fetched \<Rightarrow> bool" where
  "failed out = isl (awaited out)"

section \<open>Effects of a component\<close>

text \<open>
  A fetch routine, once its awaits are over, does nothing but call \<open>console.error\<close>
  and the state setters of its component. It is modelled as the list of those calls in
  order; \<open>'u\<close> is the component's own type of setter calls.
\<close>

datatype 'u call = Console_error string string | Setter 'u

fun is_setter :: "'u call \<Rightarrow> bool" where
  "is_setter (Setter u) = True"
| "is_setter (Console_error label msg) = False"

text \<open>What a mounted component's state becomes when the calls are carried out.\<close>

fun perform :: "('u \<Rightarrow> 's \<Rightarrow> 's) \<Rightarrow> 'u call list \<Rightarrow> 's \<Rightarrow> 's" where
  "perform upd [] s = s"
| "perform upd (Setter u # cs) s = perform upd cs (upd u s)"
| "perform upd (Console_error label msg # cs) s = perform upd cs s"

fun console :: "'u call list \<Rightarrow> (string \<times> string) list" where
  "console [] = []"
| "console (Console_error label msg # cs) = (label, msg) # console cs"
| "console (Setter u # cs) = console cs"

record poller =
  loading :: bool

section \<open>The Latest-Reading Poller: \<open>TemperatureDisplay\<close> and \<open>TemperatureCard\<close>\<close>

record reading =
  temperature :: jsval
  time :: jsval
  trend :: jsval

record display_state = poller +
  data :: reading

definition display_init :: display_state where
  "display_init =
     \<lparr>loading = True,
      data = \<lparr>temperature = Null, time = Null, trend = Str ''stable''\<rparr>\<rparr>"

datatype display_update = SetData reading | SetDataPrev | SetLoading bool

text \<open>\<open>SetDataPrev\<close> is \<open>setData(prev => ({ ...prev }))\<close>: a copy, field by field.\<close>

fun set_display :: "display_update \<Rightarrow> display_state \<Rightarrow> display_state" where
  "set_display (SetData d) s = s\<lparr>data := d\<rparr>"
| "set_display SetDataPrev s =
     s\<lparr>data := \<lparr>temperature = temperature (data s), time = time (data s),
                 trend = trend (data s)\<rparr>\<rparr>"
| "set_display (SetLoading b) s = s\<lparr>loading := b\<rparr>"

definition fetchTemperature :: "reading fetched \<Rightarrow> display_update call list" where
  "fetchTemperature out =
     (case awaited out of
        Inr result \<Rightarrow>
          [Setter (SetData \<lparr>temperature = temperature result, time = time result,
                            trend = trend result\<rparr>)]
      | Inl err \<Rightarrow>
          [Console_error ''Failed to fetch temperature:'' err, Setter SetDataPrev])
     @ [Setter (SetLoading False)]"

definition display_resolved :: "reading fetched \<Rightarrow> display_state \<Rightarrow> display_state" where
  "display_resolved out s = perform set_display (fetchTemperature out) s"

text \<open>The state after the fetches of a mounted component have resolved, in this order.\<close>

definition display_run :: "reading fetched list \<Rightarrow> display_state" where
  "display_run outs = foldl (\<lambda>s out. display_resolved out s) display_init outs"

subsection \<open>Rendering\<close>

definition formatTime :: "host \<Rightarrow> jsval \<Rightarrow> string" where
  "formatTime host timeString =
     (if \<not> truthy timeString then ''--:--''
      else toLocaleTimeString (host timeString))"

datatype icon = ArrowUp | ArrowDown

record indicator =
  icon :: icon
  colour :: string
  label :: string

text \<open>A child of an element: literal text, or a value handed to React as it is.\<close>

datatype child = Text string | Value jsval

record card =
  clock_text :: string
  temperature_child :: child
  trend_indicator :: "indicator option"

definition TemperatureCard :: "host \<Rightarrow> jsval \<Rightarrow> jsval \<Rightarrow> jsval \<Rightarrow> card" where
  "TemperatureCard host time' temperature' trend' =
     \<lparr>clock_text = formatTime host time',
      temperature_child = (if temperature' \<noteq> Null then Value temperature' else Text ''--''),
      trend_indicator =
        (if trend' \<noteq> Str ''stable'' then
           Some (if trend' = Str ''up''
                 then \<lparr>icon = ArrowUp, colour = ''text-red-500'', label = ''Rising''\<rparr>
                 else \<lparr>icon = ArrowDown, colour = ''text-blue-500'', label = ''Falling''\<rparr>)
         else None)\<rparr>"

datatype display_view = Spinner | Card_View card

definition TemperatureDisplay :: "host \<Rightarrow> display_state \<Rightarrow> display_view" where
  "TemperatureDisplay host s =
     (if loading s then Spinner
      else Card_View (TemperatureCard host (time (data s)) (temperature (data s))
                        (trend (data s))))"

text \<open>The trend indicator on screen: none while the spinner is shown.\<close>

definition shown_indicator :: "display_view \<Rightarrow> indicator option" where
  "shown_indicator v = (case v of Spinner \<Rightarrow> None | Card_View c \<Rightarrow> trend_indicator c)"

section \<open>The History Poller: \<open>TemperatureChart\<close>\<close>

record history =
  lastTimestamps :: "jsval list option"
  lastTemperatures :: "number option list option"
  count_json :: jsval

record temperature_data =
  timestamps :: "jsval list"
  temperatures :: "number option list"
  count :: jsval

record chart_state = poller +
  isDark :: bool
  temperatureData :: temperature_data
  error :: jsval

text \<open>\<open>dark\<close> is what \<open>getInitialDark()\<close> returned at mount.\<close>

definition chart_init :: "bool \<Rightarrow> chart_state" where
  "chart_init dark =
     \<lparr>loading = True, isDark = dark,
      temperatureData = \<lparr>timestamps = [], temperatures = [], count = Num 0\<rparr>,
      error = Null\<rparr>"

datatype chart_update =
  SetTemperatureData temperature_data | SetError jsval | SetChartLoading bool | SetIsDark bool

fun set_chart :: "chart_update \<Rightarrow> chart_state \<Rightarrow> chart_state" where
  "set_chart (SetTemperatureData d) s = s\<lparr>temperatureData := d\<rparr>"
| "set_chart (SetError e) s = s\<lparr>error := e\<rparr>"
| "set_chart (SetChartLoading b) s = s\<lparr>loading := b\<rparr>"
| "set_chart (SetIsDark b) s = s\<lparr>isDark := b\<rparr>"

text \<open>\<open>xs || []\<close> on a field that is an array or missing.\<close>

definition or_empty :: "'a list option \<Rightarrow> 'a list" where
  "or_empty xs = (case xs of None \<Rightarrow> [] | Some ys \<Rightarrow> ys)"

definition fetchTemperatureHistory :: "history fetched \<Rightarrow> chart_update call list" where
  "fetchTemperatureHistory out =
     (case awaited out of
        Inr result \<Rightarrow>
          [Setter (SetTemperatureData
                     \<lparr>timestamps = or_empty (lastTimestamps result),
                      temperatures = or_empty (lastTemperatures result),
                      count = js_or (count_json result) (Num 0)\<rparr>),
           Setter (SetError Null)]
      | Inl msg \<Rightarrow>
          [Console_error ''Failed to fetch temperature history:'' msg,
           Setter (SetError (Str msg))])
     @ [Setter (SetChartLoading False)]"

definition chart_resolved :: "history fetched \<Rightarrow> chart_state \<Rightarrow> chart_state" where
  "chart_resolved out s = perform set_chart (fetchTemperatureHistory out) s"

text \<open>
  What happens to a mounted chart: one of its fetches resolves, or the mutation
  observer reports the class list of \<open>body\<close> (whether it contains \<open>dark\<close>).
\<close>

datatype chart_event = Resolved "history fetched" | Body_class bool

fun chart_step :: "chart_state \<Rightarrow> chart_event \<Rightarrow> chart_state" where
  "chart_step s (Resolved out) = chart_resolved out s"
| "chart_step s (Body_class dark) = perform set_chart [Setter (SetIsDark dark)] s"

definition chart_run :: "bool \<Rightarrow> chart_event list \<Rightarrow> chart_state" where
  "chart_run dark evs = foldl chart_step (chart_init dark) evs"

fun is_resolution :: "chart_event \<Rightarrow> bool" where
  "is_resolution (Resolved out) = True"
| "is_resolution (Body_class dark) = False"

subsection \<open>Rendering\<close>

definition formatTimestamp :: "host \<Rightarrow> jsval \<Rightarrow> string" where
  "formatTimestamp host timestamp = toLocaleTimeString (host timestamp)"

text \<open>
  \<open>Math.max(...xs)\<close> and \<open>Math.min(...xs)\<close>: NaN if an argument is NaN, otherwise
  the greatest and the least, starting from the infinities.
\<close>

definition Math_max :: "number list \<Rightarrow> number" where
  "Math_max xs =
     (if NaN \<in> set xs then NaN
      else foldl (\<lambda>highest x. if number_less highest x then x else highest) NegInf xs)"

definition Math_min :: "number list \<Rightarrow> number" where
  "Math_min xs =
     (if NaN \<in> set xs then NaN
      else foldl (\<lambda>lowest x. if number_less x lowest then x else lowest) PosInf xs)"

record stats =
  stat_current :: "string option"
  stat_average :: string
  stat_range :: string

text \<open>
  The statistics block. \<open>stat_current\<close> is \<open>None\<close> where the optional chain
  \<open>?.toFixed(1)\<close> stops at \<open>null\<close> and nothing is put before the unit.
\<close>

definition statsBlock :: "number option list \<Rightarrow> stats option" where
  "statsBlock temps =
     (if 0 < length temps then
        Some \<lparr>stat_current = map_option toFixed1 (temps ! (length temps - 1)),
              stat_average =
                toFixed1 (js_div (foldl (\<lambda>a b. js_add a (ToNumber b)) (Fin 0) temps)
                            (length temps)),
              stat_range =
                toFixed1 (js_sub (Math_max (map ToNumber temps))
                            (Math_min (map ToNumber temps)))\<rparr>
      else None)"



record chart =
  labels :: "string list"
  series :: "number option list"
  borderColor :: string
  caption_count :: jsval
  stats_block :: "stats option"

text \<open>The handler behind the Retry button.\<close>

datatype handler = FetchTemperatureHistory

fun invoke :: "handler \<Rightarrow> history fetched \<Rightarrow> chart_update call list" where
  "invoke FetchTemperatureHistory out = fetchTemperatureHistory out"

datatype chart_view = Loading_View | Error_View jsval handler | Chart_View chart

definition TemperatureChart :: "host \<Rightarrow> chart_state \<Rightarrow> chart_view" where
  "TemperatureChart host s =
     (if loading s then Loading_View
      else if truthy (error s) then Error_View (error s) FetchTemperatureHistory
      else Chart_View
        \<lparr>labels = map (formatTimestamp host) (timestamps (temperatureData s)),
         series = temperatures (temperatureData s),
         borderColor = (if isDark s then ''#ef4444'' else ''#dc2626''),
         caption_count = count (temperatureData s),
         stats_block = statsBlock (temperatures (temperatureData s))\<rparr>)"

section \<open>Mounting, the interval and teardown\<close>

text \<open>
  Both components have the same effect: on mount the fetch routine is called once and
  \<open>setInterval(routine, 30000)\<close> is set; the cleanup is \<open>clearInterval\<close>, and nothing
  else. An instance records whether it is mounted, the milliseconds left until the
  interval fires next (\<open>None\<close> when there is no interval), how many fetches have begun
  and not yet resolved, and every call made by a fetch routine so far, oldest first,
  each with whether the component was mounted when it was made.
\<close>

record 'c lifecycle =
  mounted :: bool
  timer :: "nat option"
  pending :: nat
  issued :: "(bool \<times> 'c) list"

definition fresh :: "'c lifecycle" where
  "fresh = \<lparr>mounted = False, timer = None, pending = 0, issued = []\<rparr>"

definition interval_ms :: nat where
  "interval_ms = 30000"

datatype 'o event = Mount | Advance nat | Resolve 'o | Unmount

definition begin_fetch :: "nat \<Rightarrow> 'c lifecycle \<Rightarrow> 'c lifecycle" where
  "begin_fetch n i = i\<lparr>pending := pending i + n\<rparr>"

text \<open>
  \<open>Advance d\<close> lets \<open>d\<close> milliseconds pass: every firing of the interval in that time
  begins a fetch. \<open>Resolve out\<close> is the end of the awaits of the oldest pending fetch:
  the routine makes its calls, with no test of whether the component is still mounted.
\<close>

fun step :: "('o \<Rightarrow> 'c list) \<Rightarrow> 'c lifecycle \<Rightarrow> 'o event \<Rightarrow> 'c lifecycle" where
  "step routine i Mount = (begin_fetch 1 i)\<lparr>mounted := True, timer := Some interval_ms\<rparr>"
| "step routine i (Advance d) =
     (case timer i of
        None \<Rightarrow> i
      | Some r \<Rightarrow>
          if d < r then i\<lparr>timer := Some (r - d)\<rparr>
          else (begin_fetch (1 + (d - r) div interval_ms) i)
                 \<lparr>timer := Some (interval_ms - (d - r) mod interval_ms)\<rparr>)"
| "step routine i (Resolve out) =
     (if pending i = 0 then i
      else i\<lparr>pending := pending i - 1,
             issued := issued i @ map (Pair (mounted i)) (routine out)\<rparr>)"
| "step routine i Unmount = i\<lparr>mounted := False, timer := None\<rparr>"

definition run :: "('o \<Rightarrow> 'c list) \<Rightarrow> 'o event list \<Rightarrow> 'c lifecycle" where
  "run routine evs = foldl (step routine) fresh evs"

text \<open>The setter calls made on an instance that was no longer mounted.\<close>

definition late_setters :: "'u call lifecycle \<Rightarrow> 'u call list" where
  "late_setters i = [c. (m, c) \<leftarrow> issued i, \<not> m, is_setter c]"

fun is_advance :: "'o event \<Rightarrow> bool" where
  "is_advance (Advance d) = True"
| "is_advance Mount = False"
| "is_advance (Resolve out) = False"
| "is_advance Unmount = False"

section \<open>Facts about the model\<close>

subsection \<open>The folds of the statistics block\<close>















subsection \<open>One resolution of a fetch\<close>

lemma awaited_ok: "ok status \<Longrightarrow> awaited (Response status (Inr b)) = Inr b"
  by (simp add: awaited_def)

lemma failed_message: "failed out \<Longrightarrow> \<exists>msg. awaited out = Inl msg"
  by (cases "awaited out") (simp_all add: failed_def)

lemma chart_resolved_ok:
  "ok status \<Longrightarrow>
   chart_resolved (Response status (Inr b)) s =
     s\<lparr>loading := False,
       temperatureData := \<lparr>timestamps = or_empty (lastTimestamps b),
                            temperatures = or_empty (lastTemperatures b),
                            count = js_or (count_json b) (Num 0)\<rparr>,
       error := Null\<rparr>"
  by (simp add: chart_resolved_def fetchTemperatureHistory_def awaited_ok)

lemma chart_resolved_failed:
  "awaited out = Inl msg \<Longrightarrow> chart_resolved out s = s\<lparr>loading := False, error := Str msg\<rparr>"
  by (simp add: chart_resolved_def fetchTemperatureHistory_def)

lemma display_resolved_ok:
  "ok status \<Longrightarrow>
   display_resolved (Response status (Inr r)) s =
     s\<lparr>loading := False,
       data := \<lparr>temperature = temperature r, time = time r, trend = trend r\<rparr>\<rparr>"
  by (simp add: display_resolved_def fetchTemperature_def awaited_ok)

lemma display_resolved_failed:
  "awaited out = Inl msg \<Longrightarrow> display_resolved out s = s\<lparr>loading := False\<rparr>"
  by (simp add: display_resolved_def fetchTemperature_def)

lemma fetchTemperature_failed:
  "awaited out = Inl msg \<Longrightarrow>
   fetchTemperature out =
     [Console_error ''Failed to fetch temperature:'' msg, Setter SetDataPrev,
      Setter (SetLoading False)]"
  by (simp add: fetchTemperature_def)

subsection \<open>Values used in the examples\<close>


lemma show_nat_examples: "show_nat 500 = ''500''" "show_nat 503 = ''503''"
  by code_simp+

lemma clock_example: "toLocaleTimeString (Local_Time 13 5) = ''13:05''"
  by code_simp

subsection \<open>Runs of a mounted component\<close>

lemma display_resolved_loading: "loading (display_resolved out s) = False"
  by (cases "awaited out")
     (simp_all add: display_resolved_def fetchTemperature_def)

lemma chart_resolved_loading: "loading (chart_resolved out s) = False"
  by (cases "awaited out")
     (simp_all add: chart_resolved_def fetchTemperatureHistory_def)

lemma display_run_snoc: "display_run (outs @ [out]) = display_resolved out (display_run outs)"
  by (simp add: display_run_def)

lemma chart_run_snoc: "chart_run dark (evs @ [e]) = chart_step (chart_run dark evs) e"
  by (simp add: chart_run_def)

lemma display_run_loading: "loading (display_run outs) = (outs = [])"
proof (induction outs rule: rev_induct)
  case Nil
  show ?case by (simp add: display_run_def display_init_def)
next
  case (snoc out outs)
  show ?case by (simp add: display_run_snoc display_resolved_loading)
qed

lemma chart_run_loading: "loading (chart_run dark evs) = (\<not> (\<exists>e \<in> set evs. is_resolution e))"
proof (induction evs rule: rev_induct)
  case Nil
  show ?case by (simp add: chart_run_def chart_init_def)
next
  case (snoc e evs)
  then show ?case
    by (cases e) (simp_all add: chart_run_snoc chart_resolved_loading)
qed

lemma statsBlock_last_absent:
  assumes "temps \<noteq> []" and "last temps = None"
  shows "\<exists>st. statsBlock temps = Some st \<and> stat_current st = None"
  using assms by (simp add: statsBlock_def last_conv_nth)

subsection \<open>An instance without an interval\<close>

lemma advances_without_timer:
  "timer i = None \<Longrightarrow> \<forall>e \<in> set evs. is_advance e \<Longrightarrow> foldl (step routine) i evs = i"
proof (induction evs)
  case Nil
  show ?case by simp
next
  case (Cons e evs)
  then obtain d where "e = Advance d" by (cases e) simp_all
  with Cons show ?case by simp
qed

subsection \<open>Invalid dates\<close>

lemma formatTime_invalid:
  "truthy timeString \<Longrightarrow> host timeString = Invalid_Date \<Longrightarrow>
   formatTime host timeString = ''Invalid Date''"
  by (simp add: formatTime_def toLocaleTimeString_def)

lemma formatTimestamp_invalid:
  "host timestamp = Invalid_Date \<Longrightarrow> formatTimestamp host timestamp = ''Invalid Date''"
  by (simp add: formatTimestamp_def toLocaleTimeString_def)

section \<open>Statistics of the history window\<close>



section \<open>Failure and recovery\<close>

text \<open>
  Claim C2. When a fetch of the latest reading fails (the request is rejected, the status
  is outside 200..299, or the body cannot be read), the stored temperature, time and
  trend are what they were; the card is rendered from them, so a view that showed the
  card before shows the same card after; the failure goes to \<open>console.error\<close> and the
  only setters called are the copying \<open>setData\<close> and \<open>setLoading(false)\<close>. The view
  type of this poller has no error view.
\<close>

theorem latest_failure_keeps_reading:
  assumes "failed out"
  shows "data (display_resolved out s) = data s \<and>
         TemperatureDisplay host (display_resolved out s) =
           Card_View (TemperatureCard host (time (data s)) (temperature (data s))
                        (trend (data s))) \<and>
         (\<not> loading s \<longrightarrow>
            TemperatureDisplay host (display_resolved out s) = TemperatureDisplay host s) \<and>
         (\<exists>msg. awaited out = Inl msg \<and>
            console (fetchTemperature out) = [(''Failed to fetch temperature:'', msg)] \<and>
            filter is_setter (fetchTemperature out) =
              [Setter SetDataPrev, Setter (SetLoading False)])"
proof -
  obtain msg where m: "awaited out = Inl msg"
    using assms failed_message by blast
  show ?thesis
    using m by (simp add: display_resolved_failed fetchTemperature_failed TemperatureDisplay_def)
qed

theorem latest_failure_keeps_reading_witness:
  "failed (Response 500 (Inl ''unused'') :: reading fetched) \<and>
   data (display_resolved (Response 500 (Inl ''unused''))
          (display_resolved
             (Response 200 (Inr \<lparr>temperature = Num 21, time = Str ''2024-05-01T13:05:00'',
                                  trend = Str ''up''\<rparr>)) display_init)) =
     \<lparr>temperature = Num 21, time = Str ''2024-05-01T13:05:00'', trend = Str ''up''\<rparr> \<and>
   TemperatureDisplay example_host
     (display_resolved (Response 500 (Inl ''unused''))
        (display_resolved
           (Response 200 (Inr \<lparr>temperature = Num 21, time = Str ''2024-05-01T13:05:00'',
                                trend = Str ''up''\<rparr>)) display_init)) =
     Card_View \<lparr>clock_text = ''13:05'', temperature_child = Value (Num 21),
                trend_indicator =
                  Some \<lparr>icon = ArrowUp, colour = ''text-red-500'', label = ''Rising''\<rparr>\<rparr> \<and>
   console (fetchTemperature (Response 500 (Inl ''unused''))) =
     [(''Failed to fetch temperature:'', ''HTTP error! status: 500'')]"
proof -
  have f: "failed (Response 500 (Inl ''unused'') :: reading fetched)"
    by (simp add: failed_def awaited_def ok_def)
  have k: "ok 200" by (simp add: ok_def)
  show ?thesis
    using f
      latest_failure_keeps_reading
        [OF f, of "display_resolved
             (Response 200 (Inr \<lparr>temperature = Num 21, time = Str ''2024-05-01T13:05:00'',
                                  trend = Str ''up''\<rparr>)) display_init" example_host]
    by (simp add: display_resolved_ok [OF k] display_init_def TemperatureCard_def
        formatTime_def example_host_def clock_example awaited_def ok_def show_nat_examples)
qed

text \<open>
  Claim C3. After a successful fetch of the history, a failure with message \<open>msg\<close>
  stores \<open>msg\<close> as the error, leaves the stored window as it was, and the error view
  with \<open>msg\<close> and the Retry button replaces the chart. The button's handler is the fetch
  routine itself; when a fetch begun by it (or by the interval) succeeds, the state holds
  the new window, the error is \<open>null\<close>, and the chart view is rendered from the new
  window. The error view is chosen by \<open>if (error)\<close>, so the message is taken to be
  non-empty, as those of the platform's errors and of the status error are.
\<close>

theorem history_failure_then_recovery:
  assumes "ok status1" and "awaited out = Inl msg" and "msg \<noteq> []" and "ok status2"
  shows "let s1 = chart_resolved (Response status1 (Inr b1)) s0;
             s2 = chart_resolved out s1;
             s3 = perform set_chart (invoke FetchTemperatureHistory (Response status2 (Inr b2))) s2;
             window = \<lparr>timestamps = or_empty (lastTimestamps b2),
                       temperatures = or_empty (lastTemperatures b2),
                       count = js_or (count_json b2) (Num 0)\<rparr>
         in error s2 = Str msg \<and>
            temperatureData s2 = temperatureData s1 \<and>
            TemperatureChart host s2 = Error_View (Str msg) FetchTemperatureHistory \<and>
            s3 = chart_resolved (Response status2 (Inr b2)) s2 \<and>
            temperatureData s3 = window \<and>
            error s3 = Null \<and>
            TemperatureChart host s3 =
              Chart_View
                \<lparr>labels = map (formatTimestamp host) (timestamps window),
                 series = temperatures window,
                 borderColor = (if isDark s0 then ''#ef4444'' else ''#dc2626''),
                 caption_count = count window,
                 stats_block = statsBlock (temperatures window)\<rparr>"
  using assms
  by (simp add: Let_def chart_resolved_ok chart_resolved_failed TemperatureChart_def
      chart_resolved_def [symmetric])

theorem history_failure_then_recovery_witness:
  "ok 200 \<and> awaited (Response 503 (Inl ''unused'') :: history fetched) = Inl ''HTTP error! status: 503'' \<and>
   ''HTTP error! status: 503'' \<noteq> [] \<and>
   TemperatureChart example_host
     (chart_resolved (Response 503 (Inl ''unused''))
        (chart_resolved
           (Response 200 (Inr \<lparr>lastTimestamps = Some [Str ''2024-05-01T13:05:00''],
                                lastTemperatures = Some [Some (Fin 18)], count_json = Num 1\<rparr>))
           (chart_init False))) =
     Error_View (Str ''HTTP error! status: 503'') FetchTemperatureHistory \<and>
   TemperatureChart example_host
     (perform set_chart
        (invoke FetchTemperatureHistory
           (Response 200 (Inr \<lparr>lastTimestamps = Some [Str ''2024-05-01T13:05:00''],
                                lastTemperatures = Some [Some (Fin 22)], count_json = Num 1\<rparr>)))
        (chart_resolved (Response 503 (Inl ''unused''))
           (chart_resolved
              (Response 200 (Inr \<lparr>lastTimestamps = Some [Str ''2024-05-01T13:05:00''],
                                   lastTemperatures = Some [Some (Fin 18)], count_json = Num 1\<rparr>))
              (chart_init False)))) =
     Chart_View
       \<lparr>labels = [''13:05''], series = [Some (Fin 22)], borderColor = ''#dc2626'',
        caption_count = Num 1,
        stats_block =
          Some \<lparr>stat_current = Some ''22.0'', stat_average = ''22.0'', stat_range = ''0.0''\<rparr>\<rparr>"
proof -
  have k: "ok 200" by (simp add: ok_def)
  have f: "awaited (Response 503 (Inl ''unused'') :: history fetched) = Inl ''HTTP error! status: 503''"
    by (simp add: awaited_def ok_def show_nat_examples)
  have n: "''HTTP error! status: 503'' \<noteq> []" by simp
  have st: "statsBlock [Some (Fin 22)] =
      Some \<lparr>stat_current = Some ''22.0'', stat_average = ''22.0'', stat_range = ''0.0''\<rparr>"
    by code_simp
  show ?thesis
    using k f n
      history_failure_then_recovery [OF k f n k, of
        "\<lparr>lastTimestamps = Some [Str ''2024-05-01T13:05:00''],
          lastTemperatures = Some [Some (Fin 18)], count_json = Num 1\<rparr>" "chart_init False"
        "\<lparr>lastTimestamps = Some [Str ''2024-05-01T13:05:00''],
          lastTemperatures = Some [Some (Fin 22)], count_json = Num 1\<rparr>" example_host]
    by (simp add: Let_def or_empty_def js_or_def chart_init_def st formatTimestamp_def
        example_host_def clock_example chart_resolved_def)
qed

section \<open>The loading flag\<close>

text \<open>
  Claim C5. For both pollers \<open>loading\<close> is true exactly as long as none of the
  component's fetches has resolved: it is true in the initial state (and, for the
  chart, after any number of theme changes), false after the first resolution whatever
  its outcome, and false after every later event.
\<close>

theorem loading_until_first_resolution:
  "loading (display_run outs) = (outs = []) \<and>
   loading (chart_run dark evs) = (\<not> (\<exists>e \<in> set evs. is_resolution e))"
  by (simp only: display_run_loading chart_run_loading)

theorem loading_until_first_resolution_witness:
  "loading (display_run []) \<and>
   \<not> loading (display_run [Rejected ''Failed to fetch'']) \<and>
   \<not> loading (display_run [Rejected ''Failed to fetch'',
        Response 200 (Inr \<lparr>temperature = Num 21, time = Null, trend = Str ''up''\<rparr>),
        Response 500 (Inl ''unused'')]) \<and>
   loading (chart_run False [Body_class True]) \<and>
   \<not> loading (chart_run False [Body_class True, Resolved (Rejected ''Failed to fetch''),
        Resolved (Response 200 (Inr \<lparr>lastTimestamps = None, lastTemperatures = None,
                                      count_json = Undefined\<rparr>))])"
  using
    loading_until_first_resolution [of "[]" False "[Body_class True]"]
    loading_until_first_resolution [of "[Rejected ''Failed to fetch'']" False
      "[Body_class True, Resolved (Rejected ''Failed to fetch''),
        Resolved (Response 200 (Inr \<lparr>lastTimestamps = None, lastTemperatures = None,
                                      count_json = Undefined\<rparr>))]"]
    loading_until_first_resolution [of "[Rejected ''Failed to fetch'',
        Response 200 (Inr \<lparr>temperature = Num 21, time = Null, trend = Str ''up''\<rparr>),
        Response 500 (Inl ''unused'')]" False "[]"]
  by simp

section \<open>Absent values\<close>

text \<open>
  Claim C4, as stated, at a history window with an absent value. For
  \<open>lastTemperatures = [20, null]\<close> the statistics block is rendered; its current
  figure is empty, not the placeholder; the \<open>null\<close> is counted in the length and added
  as \<open>0\<close>, so the average is \<open>10.0\<close>, not the \<open>20.0\<close> of the present values; and
  it is the minimum, so the range is \<open>20.0\<close>, not \<open>0.0\<close>.
\<close>

theorem absent_value_in_statistics:
  "statsBlock [Some (Fin 20), None] =
     Some \<lparr>stat_current = None, stat_average = ''10.0'', stat_range = ''20.0''\<rparr> \<and>
   statsBlock [Some (Fin 20)] =
     Some \<lparr>stat_current = Some ''20.0'', stat_average = ''20.0'', stat_range = ''0.0''\<rparr>"
  by code_simp

text \<open>
  Claim C4, amended. In the card, the temperature is the placeholder \<open>--\<close> when it is
  \<open>null\<close> and otherwise the value as it is, with no numeric formatting; so the card on
  screen shows the placeholder whenever the stored temperature is \<open>null\<close>. In the
  history statistics, an absent last value is not given to \<open>toFixed\<close>: the current
  figure is empty.
\<close>

theorem absent_value_placeholder:
  "temperature_child (TemperatureCard host time' temperature' trend') =
     (if temperature' = Null then Text ''--'' else Value temperature') \<and>
   (\<not> loading s \<and> temperature (data s) = Null \<longrightarrow>
      (\<exists>c. TemperatureDisplay host s = Card_View c \<and> temperature_child c = Text ''--'')) \<and>
   (temps \<noteq> [] \<and> last temps = None \<longrightarrow>
      (\<exists>st. statsBlock temps = Some st \<and> stat_current st = None))"
  by (simp add: TemperatureCard_def TemperatureDisplay_def statsBlock_last_absent)

theorem absent_value_placeholder_witness:
  "temperature_child (TemperatureCard example_host Null Null (Str ''stable'')) = Text ''--'' \<and>
   temperature_child (TemperatureCard example_host Null (Num 21) (Str ''stable'')) = Value (Num 21) \<and>
   TemperatureDisplay example_host (display_run [Rejected ''Failed to fetch'']) =
     Card_View \<lparr>clock_text = ''--:--'', temperature_child = Text ''--'', trend_indicator = None\<rparr> \<and>
   (\<exists>st. statsBlock [Some (Fin 20), None] = Some st \<and> stat_current st = None)"
proof -
  have s: "display_run [Rejected ''Failed to fetch''] = display_init\<lparr>loading := False\<rparr>"
    by (simp add: display_run_def display_resolved_def fetchTemperature_def awaited_def
        display_init_def)
  have v: "TemperatureDisplay example_host (display_run [Rejected ''Failed to fetch'']) =
     Card_View \<lparr>clock_text = ''--:--'', temperature_child = Text ''--'', trend_indicator = None\<rparr>"
    by (simp add: s TemperatureDisplay_def TemperatureCard_def display_init_def formatTime_def)
  show ?thesis
    using v
      absent_value_placeholder [of example_host Null Null "Str ''stable''"
        "display_run [Rejected ''Failed to fetch'']" "[Some (Fin 20), None]"]
      absent_value_placeholder [of example_host Null "Num 21" "Str ''stable''"
        "display_run [Rejected ''Failed to fetch'']" "[Some (Fin 20), None]"]
    by simp
qed

section \<open>Teardown\<close>

text \<open>
  Claim C6, as stated, on an unmount with a fetch in flight. The component is mounted,
  which begins a fetch, and unmounted before the fetch resolves. When it resolves, the
  routine calls the state setters all the same, in both pollers: the source has no
  test of whether the component is still mounted.
\<close>

theorem setter_called_after_unmount:
  "late_setters
     (run fetchTemperature
        [Mount, Unmount,
         Resolve (Response 200 (Inr \<lparr>temperature = Num 21, time = Null, trend = Str ''up''\<rparr>))]) =
     [Setter (SetData \<lparr>temperature = Num 21, time = Null, trend = Str ''up''\<rparr>),
      Setter (SetLoading False)] \<and>
   late_setters
     (run fetchTemperatureHistory [Mount, Unmount, Resolve (Rejected ''Failed to fetch'')]) =
     [Setter (SetError (Str ''Failed to fetch'')), Setter (SetChartLoading False)]"
  by (simp add: late_setters_def run_def fresh_def begin_fetch_def fetchTemperature_def
      fetchTemperatureHistory_def awaited_def ok_def)

text \<open>
  Claim C6, amended. For each poller, unmount clears the 30-second interval: whatever
  time passes afterwards, no fetch is begun and nothing else changes. A fetch still in
  flight at teardown is not aborted, and its resolution is not guarded: the routine
  makes the same calls as on a mounted component.
\<close>

theorem teardown_cancels_interval_only:
  "timer (step routine i Unmount) = None \<and>
   ((\<forall>e \<in> set evs. is_advance e) \<longrightarrow>
      foldl (step routine) (step routine i Unmount) evs = step routine i Unmount) \<and>
   (0 < pending i \<longrightarrow>
      issued (step routine (step routine i Unmount) (Resolve out)) =
        issued i @ map (Pair False) (routine out))"
proof -
  have t: "timer (step routine i Unmount) = None" by simp
  have a: "(\<forall>e \<in> set evs. is_advance e) \<longrightarrow>
      foldl (step routine) (step routine i Unmount) evs = step routine i Unmount"
    using advances_without_timer [OF t] by blast
  have r: "0 < pending i \<longrightarrow>
      issued (step routine (step routine i Unmount) (Resolve out)) =
        issued i @ map (Pair False) (routine out)"
    by simp
  from t a r show ?thesis by blast
qed

theorem teardown_cancels_interval_only_witness:
  "pending (run fetchTemperature [Mount, Advance 30000]) = 2 \<and>
   run fetchTemperature [Mount, Advance 30000, Unmount, Advance 30000, Advance 45000] =
     run fetchTemperature [Mount, Advance 30000, Unmount] \<and>
   issued (run fetchTemperature [Mount, Advance 30000, Unmount, Resolve (Rejected ''Failed to fetch'')]) =
     map (Pair False) (fetchTemperature (Rejected ''Failed to fetch'')) \<and>
   issued (run fetchTemperatureHistory [Mount, Unmount, Resolve (Rejected ''Failed to fetch'')]) =
     map (Pair False) (fetchTemperatureHistory (Rejected ''Failed to fetch''))"
proof -
  have p: "pending (run fetchTemperature [Mount, Advance 30000]) = 2"
    by (simp add: run_def fresh_def begin_fetch_def interval_ms_def)
  have q: "pending (run fetchTemperatureHistory [Mount]) = 1"
    by (simp add: run_def fresh_def begin_fetch_def interval_ms_def)
  have i1: "issued (run fetchTemperature [Mount, Advance 30000]) = []"
    by (simp add: run_def fresh_def begin_fetch_def interval_ms_def)
  have i2: "issued (run fetchTemperatureHistory [Mount]) = []"
    by (simp add: run_def fresh_def begin_fetch_def interval_ms_def)
  have e: "\<forall>e \<in> set [Advance 30000, Advance 45000 :: reading fetched event]. is_advance e"
    by simp
  show ?thesis
    using p q i1 i2 e
      teardown_cancels_interval_only [of fetchTemperature "run fetchTemperature [Mount, Advance 30000]"
        "[Advance 30000, Advance 45000]" "Rejected ''Failed to fetch''"]
      teardown_cancels_interval_only [of fetchTemperatureHistory "run fetchTemperatureHistory [Mount]"
        "[]" "Rejected ''Failed to fetch''"]
    by (simp add: run_def)
qed

section \<open>Time of day\<close>

text \<open>
  Claim C7, at an unparseable timestamp. \<open>new Date\<close> does not throw on text that is
  no date and \<open>toLocaleTimeString\<close> answers \<open>Invalid Date\<close> for it, so the \<open>catch\<close>
  of \<open>formatTime\<close> is not reached: the card shows \<open>Invalid Date\<close>, not the
  placeholder. An absent timestamp does give the placeholder, and a parseable one the
  local hour and minute.
\<close>

theorem formatTime_unparseable:
  "formatTime example_host (Str ''not-a-date'') = ''Invalid Date'' \<and>
   formatTime example_host (Str ''not-a-date'') \<noteq> ''--:--'' \<and>
   formatTime example_host Null = ''--:--'' \<and>
   formatTime example_host (Str ''2024-05-01T13:05:00'') = ''13:05''"
  by (simp add: formatTime_def example_host_def toLocaleTimeString_def clock_example [unfolded toLocaleTimeString_def, simplified])

text \<open>
  Claim C8, at an unparseable timestamp in the window. For the same reason the
  \<open>catch\<close> of \<open>formatTimestamp\<close> is not reached: the label is \<open>Invalid Date\<close>,
  not the raw timestamp. A parseable timestamp is labelled as in the card.
\<close>

theorem formatTimestamp_unparseable:
  "TemperatureChart example_host
     (chart_resolved
        (Response 200
           (Inr \<lparr>lastTimestamps = Some [Str ''not-a-date'', Str ''2024-05-01T13:05:00''],
                 lastTemperatures = Some [Some (Fin 18), Some (Fin 20)], count_json = Num 2\<rparr>))
        (chart_init False)) =
   Chart_View
     \<lparr>labels = [''Invalid Date'', ''13:05''], series = [Some (Fin 18), Some (Fin 20)],
      borderColor = ''#dc2626'', caption_count = Num 2,
      stats_block =
        Some \<lparr>stat_current = Some ''20.0'', stat_average = ''19.0'', stat_range = ''2.0''\<rparr>\<rparr> \<and>
   formatTimestamp example_host (Str ''not-a-date'') \<noteq> ''not-a-date''"
  by code_simp

section \<open>The trend indicator\<close>

text \<open>
  Claim C9. In every state the Latest-Reading Poller reaches: when the stored trend is
  \<open>stable\<close> no indicator is on screen; when it is \<open>up\<close> the card is on screen with
  the upward arrow and the text Rising in red; when it is \<open>down\<close> the card is on
  screen with the downward arrow and the text Falling in blue. The indicator is an
  icon, a colour and a fixed word, whatever the temperature; and the card has no
  indicator for \<open>stable\<close> at any time and temperature.
\<close>

theorem trend_indicator_by_direction:
  "(trend (data (display_run outs)) = Str ''stable'' \<longrightarrow>
      shown_indicator (TemperatureDisplay host (display_run outs)) = None) \<and>
   (trend (data (display_run outs)) = Str ''up'' \<longrightarrow>
      (\<exists>c. TemperatureDisplay host (display_run outs) = Card_View c \<and>
           trend_indicator c =
             Some \<lparr>icon = ArrowUp, colour = ''text-red-500'', label = ''Rising''\<rparr>)) \<and>
   (trend (data (display_run outs)) = Str ''down'' \<longrightarrow>
      (\<exists>c. TemperatureDisplay host (display_run outs) = Card_View c \<and>
           trend_indicator c =
             Some \<lparr>icon = ArrowDown, colour = ''text-blue-500'', label = ''Falling''\<rparr>)) \<and>
   trend_indicator (TemperatureCard host t v (Str ''stable'')) = None"
proof (cases "outs = []")
  case True
  then show ?thesis
    by (simp add: display_run_def display_init_def TemperatureDisplay_def shown_indicator_def
        TemperatureCard_def)
next
  case False
  then have "\<not> loading (display_run outs)"
    by (simp add: display_run_loading)
  then show ?thesis
    by (simp add: TemperatureDisplay_def shown_indicator_def TemperatureCard_def)
qed

theorem trend_indicator_by_direction_witness:
  "shown_indicator (TemperatureDisplay example_host (display_run [])) = None \<and>
   shown_indicator (TemperatureDisplay example_host
      (display_run [Response 200 (Inr \<lparr>temperature = Num 30, time = Null, trend = Str ''stable''\<rparr>)])) = None \<and>
   shown_indicator (TemperatureDisplay example_host
      (display_run [Response 200 (Inr \<lparr>temperature = Num 30, time = Null, trend = Str ''up''\<rparr>)])) =
     Some \<lparr>icon = ArrowUp, colour = ''text-red-500'', label = ''Rising''\<rparr> \<and>
   shown_indicator (TemperatureDisplay example_host
      (display_run [Response 200 (Inr \<lparr>temperature = Num 30, time = Null, trend = Str ''down''\<rparr>)])) =
     Some \<lparr>icon = ArrowDown, colour = ''text-blue-500'', label = ''Falling''\<rparr>"
proof -
  have k: "ok 200" by (simp add: ok_def)
  have d: "data (display_run [Response 200 (Inr \<lparr>temperature = Num 30, time = Null, trend = tr\<rparr>)]) =
      \<lparr>temperature = Num 30, time = Null, trend = tr\<rparr>" for tr
    by (simp add: display_run_def display_resolved_ok [OF k])
  have i: "data (display_run []) = \<lparr>temperature = Null, time = Null, trend = Str ''stable''\<rparr>"
    by (simp add: display_run_def display_init_def)
  show ?thesis
    using
      trend_indicator_by_direction [of "[]" example_host Null Null]
      trend_indicator_by_direction [of "[Response 200 (Inr \<lparr>temperature = Num 30, time = Null, trend = Str ''stable''\<rparr>)]" example_host Null Null]
      trend_indicator_by_direction [of "[Response 200 (Inr \<lparr>temperature = Num 30, time = Null, trend = Str ''up''\<rparr>)]" example_host Null Null]
      trend_indicator_by_direction [of "[Response 200 (Inr \<lparr>temperature = Num 30, time = Null, trend = Str ''down''\<rparr>)]" example_host Null Null]
    by (auto simp add: d i shown_indicator_def)
qed

text \<open>
  Claim C10. For every trend value that is neither \<open>up\<close> nor \<open>stable\<close>, whether it is
  \<open>down\<close>, another string or not a string, the card has the Falling indicator, the same
  as for \<open>down\<close>.
\<close>

theorem other_trend_renders_falling:
  assumes "trend' \<noteq> Str ''up''" and "trend' \<noteq> Str ''stable''"
  shows "trend_indicator (TemperatureCard host time' temperature' trend') =
           Some \<lparr>icon = ArrowDown, colour = ''text-blue-500'', label = ''Falling''\<rparr> \<and>
         trend_indicator (TemperatureCard host time' temperature' trend') =
           trend_indicator (TemperatureCard host time' temperature' (Str ''down''))"
  using assms by (simp add: TemperatureCard_def)

theorem other_trend_renders_falling_witness:
  "Str ''sideways'' \<noteq> Str ''up'' \<and> Str ''sideways'' \<noteq> Str ''stable'' \<and>
   trend_indicator (TemperatureCard example_host Null (Num 21) (Str ''sideways'')) =
     Some \<lparr>icon = ArrowDown, colour = ''text-blue-500'', label = ''Falling''\<rparr> \<and>
   trend_indicator (TemperatureCard example_host Null (Num 21) Undefined) =
     Some \<lparr>icon = ArrowDown, colour = ''text-blue-500'', label = ''Falling''\<rparr> \<and>
   trend_indicator (TemperatureCard example_host Null (Num 21) (Str ''down'')) =
     Some \<lparr>icon = ArrowDown, colour = ''text-blue-500'', label = ''Falling''\<rparr>"
proof -
  have a: "Str ''sideways'' \<noteq> Str ''up''" and b: "Str ''sideways'' \<noteq> Str ''stable''"
    and c: "Undefined \<noteq> Str ''up''" and d: "Undefined \<noteq> Str ''stable''"
    and e: "Str ''down'' \<noteq> Str ''up''" and f: "Str ''down'' \<noteq> Str ''stable''"
    by simp_all
  show ?thesis
    using a b
      other_trend_renders_falling [OF a b, of example_host Null "Num 21"]
      other_trend_renders_falling [OF c d, of example_host Null "Num 21"]
      other_trend_renders_falling [OF e f, of example_host Null "Num 21"]
    by simp
qed


end
